theory Spec2Isabelle
  imports Complex_Main "HOL-Library.Word"
begin

section \<open>The CloudWatch metrics provider (pkg/metrics/providers/cloudwatch.go)\<close>

subsection \<open>Values of the Go program\<close>

text \<open>
  A \<open>float64\<close> is carried as its IEEE-754 bit pattern: the provider never computes with
  the value, it only passes it on, and the constant \<open>0\<close> of the source is the pattern
  \<open>0\<close> (positive zero). A \<open>time.Duration\<close> is a signed 64-bit count of nanoseconds whose
  arithmetic wraps around.
\<close>

type_synonym float64 = "64 word"
type_synonym Duration = "64 word"

text \<open>
  A Go \<open>error\<close> value is either one that implements \<open>awserr.RequestFailure\<close> (with its
  \<open>StatusCode()\<close> and its \<open>Error()\<close> text) or any other error, of which only the
  \<open>Error()\<close> text is observable. The value \<open>nil\<close> of a pointer, and of the interface
  \<open>error\<close>, is \<open>None\<close>.
\<close>

datatype error = errorString string | RequestFailure int string

fun Error :: "error \<Rightarrow> string" where
  "Error (errorString m) = m"
| "Error (RequestFailure code m) = m"

text \<open>\<open>fmt.Errorf(prefix + "%s", arg)\<close>: a new plain error whose text is the prefix
  followed by the argument.\<close>

definition Errorf :: "string \<Rightarrow> string \<Rightarrow> error" where
  "Errorf prefix arg = errorString (prefix @ arg)"

text \<open>A call of the source either returns or panics (a nil pointer is dereferenced).\<close>

datatype 'a outcome = Return 'a | Panic

definition cloudWatchMaxRetries :: int where
  "cloudWatchMaxRetries = 3"

definition cloudWatchStartDeltaMultiplierOnMetricInterval :: Duration where
  "cloudWatchStartDeltaMultiplierOnMetricInterval = 10"

definition StatusBadRequest :: int where
  "StatusBadRequest = 400"

subsection \<open>The types of the AWS SDK that the provider touches\<close>

text \<open>
  Only the fields that the provider reads or writes are kept. \<open>'q\<close> is the type of a
  \<open>*cloudwatch.MetricDataQuery\<close> and \<open>'t\<close> the type of a \<open>time.Time\<close>; the provider
  hands both on without looking inside.
\<close>

record ('q, 't) GetMetricDataInput =
  EndTime :: "'t option"
  MaxDatapoints :: "64 word option"
  StartTime :: "'t option"
  MetricDataQueries :: "'q list"

record MetricDataResult =
  Label :: string
  Values :: "float64 option list"

record GetMetricDataOutput =
  MetricDataResults :: "MetricDataResult option list"

text \<open>The interface \<open>cloudWatchClient\<close> has the single method \<open>GetMetricData\<close>, which
  returns a pointer to the output and an error.\<close>

type_synonym ('q, 't) cloudWatchClient =
  "('q, 't) GetMetricDataInput \<Rightarrow> GetMetricDataOutput option \<times> error option"

record ('q, 't) CloudWatchProvider =
  client :: "('q, 't) cloudWatchClient"
  startDelta :: Duration

record aws_Config =
  Region :: string
  MaxRetries :: int
  Endpoint :: string

record MetricTemplateProvider =
  Address :: string

text \<open>
  The functions of the Go standard library and of the AWS SDK that the provider calls are
  parameters of the model: \<open>json.Unmarshal\<close> into a slice of query pointers, the clock,
  \<open>Time.Add\<close>, the zero \<open>time.Time{}\<close>, \<open>time.ParseDuration\<close> (which returns a duration
  and an error), \<open>session.NewSession\<close> (a pointer to a session \<open>'s\<close>, nil when the
  session could not be created, and an error), \<open>cloudwatch.New\<close> on a session, and the
  \<open>String()\<close> method of the output.
\<close>

record ('q, 't, 's) externals =
  json_Unmarshal :: "string \<Rightarrow> error + 'q list"
  time_Now :: "'t"
  time_Add :: "'t \<Rightarrow> Duration \<Rightarrow> 't"
  time_Zero :: "'t"
  time_ParseDuration :: "string \<Rightarrow> Duration \<times> error option"
  session_NewSession :: "aws_Config \<Rightarrow> 's option \<times> error option"
  cloudwatch_New :: "'s \<Rightarrow> ('q, 't) cloudWatchClient"
  output_String :: "GetMetricDataOutput \<Rightarrow> string"

subsection \<open>strings.TrimLeft and strings.TrimRight\<close>

text \<open>
  Both cut sets of the source are ASCII, so Go trims byte by byte: \<open>TrimLeft\<close> drops bytes
  from the front while they belong to the cut set, \<open>TrimRight\<close> drops them from the back.
\<close>

fun TrimLeft :: "string \<Rightarrow> string \<Rightarrow> string" where
  "TrimLeft [] cutset = []"
| "TrimLeft (c # s) cutset = (if c \<in> set cutset then TrimLeft s cutset else c # s)"

function TrimRight :: "string \<Rightarrow> string \<Rightarrow> string" where
  "TrimRight s cutset =
     (if s \<noteq> [] \<and> last s \<in> set cutset then TrimRight (butlast s) cutset else s)"
  by pat_completeness auto
termination
  by (relation "measure (\<lambda>(s, cutset). length s)") auto

declare TrimRight.simps [simp del]

subsection \<open>NewCloudWatchProvider\<close>

text \<open>
  The result is the pair that the source returns (or a panic), together with the
  configurations that were passed to \<open>session.NewSession\<close>, in order. The variable \<open>err\<close>
  of the source is assigned twice: first by \<open>session.NewSession\<close>, then by
  \<open>time.ParseDuration\<close>; the first value is never read. The session is therefore passed
  to \<open>cloudwatch.New\<close> unchecked, and \<open>cloudwatch.New\<close> dereferences it: a nil session
  panics there.
\<close>

definition NewCloudWatchProvider ::
  "('q, 't, 's) externals \<Rightarrow> string \<Rightarrow> MetricTemplateProvider \<Rightarrow>
     (('q, 't) CloudWatchProvider option \<times> error option) outcome \<times> aws_Config list" where
  "NewCloudWatchProvider ext metricInterval provider =
     (let region = TrimLeft (Address provider) ''monitoring.'';
          region = TrimRight region ''.amazonaws.com'';
          cfg = \<lparr>Region = region, MaxRetries = cloudWatchMaxRetries,
                 Endpoint = Address provider\<rparr>;
          (sess, err) = session_NewSession ext cfg;
          (md, err) = time_ParseDuration ext metricInterval
      in (case err of
            Some e \<Rightarrow>
              Return (None, Some (Errorf ''error parsing metric interval: '' (Error e)))
          | None \<Rightarrow>
              (case sess of
                 None \<Rightarrow> Panic
               | Some s \<Rightarrow>
                   Return
                     (Some \<lparr>client = cloudwatch_New ext s,
                            startDelta = cloudWatchStartDeltaMultiplierOnMetricInterval * md\<rparr>,
                      err)),
          [cfg]))"

subsection \<open>RunQuery\<close>

text \<open>\<open>aws.Float64Value\<close>: the value behind the pointer, and \<open>0\<close> for a nil pointer.\<close>

fun Float64Value :: "float64 option \<Rightarrow> float64" where
  "Float64Value None = 0"
| "Float64Value (Some v) = v"

text \<open>
  The result is what the source returns (or a panic), together with the inputs of the
  calls of \<open>GetMetricData\<close> that were issued, in order.
\<close>

definition RunQuery ::
  "('q, 't, 's) externals \<Rightarrow> ('q, 't) CloudWatchProvider \<Rightarrow> string \<Rightarrow>
     (float64 \<times> error option) outcome \<times> ('q, 't) GetMetricDataInput list" where
  "RunQuery ext p query =
     (case json_Unmarshal ext query of
        Inl err \<Rightarrow>
          (Return (0, Some (Errorf ''error unmarshaling query: '' (Error err))), [])
      | Inr cq \<Rightarrow>
          (let end_time = time_Now ext;
               start = time_Add ext end_time (- startDelta p);
               input = \<lparr>EndTime = Some end_time, MaxDatapoints = Some 20,
                        StartTime = Some start, MetricDataQueries = cq\<rparr>;
               (res, err) = client p input
           in (case err of
                 Some e \<Rightarrow>
                   Return (0, Some (Errorf ''error requesting cloudwatch: '' (Error e)))
               | None \<Rightarrow>
                   (case res of
                      None \<Rightarrow> Panic
                    | Some r \<Rightarrow>
                        (let mr = MetricDataResults r
                         in if length mr < 1
                            then Return (0, Some (Errorf ''no values found in response: ''
                                                    (output_String ext r)))
                            else (case mr ! 0 of
                                    None \<Rightarrow> Panic
                                  | Some m \<Rightarrow>
                                      (let vs = Values m
                                       in if length vs < 1
                                          then Return (0, Some (Errorf
                                                 ''no values found in response: ''
                                                 (output_String ext r)))
                                          else Return (Float64Value (vs ! 0), None))))),
               [input])))"

subsection \<open>IsOnline\<close>

definition IsOnline ::
  "('q, 't, 's) externals \<Rightarrow> ('q, 't) CloudWatchProvider \<Rightarrow>
     (bool \<times> error option) \<times> ('q, 't) GetMetricDataInput list" where
  "IsOnline ext p =
     (let input = \<lparr>EndTime = Some (time_Zero ext), MaxDatapoints = None,
                   StartTime = Some (time_Zero ext), MetricDataQueries = []\<rparr>;
          (res, err) = client p input
      in (case err of
            None \<Rightarrow> (True, None)
          | Some e \<Rightarrow>
              (case e of
                 errorString m \<Rightarrow> (False, Some (Errorf ''unexpected error: '' (Error e)))
               | RequestFailure code m \<Rightarrow>
                   if code \<noteq> StatusBadRequest
                   then (False, Some (Errorf ''unexpected status code: '' (Error e)))
                   else (True, None)),
          [input]))"

section \<open>The canary reconciliation engine (pkg/controller)\<close>

subsection \<open>Data model\<close>

text \<open>
  Modelled from the spec: the scheduler function \<open>advanceCanary\<close>, the status and
  analysis types of \<open>flaggerv1\<close>, the router and the fixtures of the tests are not part
  of the sources at hand; only the scheduler's tests are. The definitions of this section
  follow sections 3, 4.2 and 6 of the specification. Where the specification leaves a
  result open and a test of the sources fixes it, the model follows the test, and the
  text of the definition says so.
\<close>

datatype CanaryPhase =
    CanaryPhaseInitializing
  | CanaryPhaseInitialized
  | CanaryPhaseWaitingPromotion
  | CanaryPhaseProgressing
  | CanaryPhaseWaitingOrSkipped
  | CanaryPhasePromoting
  | CanaryPhaseFinalising
  | CanaryPhaseSucceeded
  | CanaryPhaseFailed
  | CanaryPhaseTerminated

text \<open>Modelled from the spec: the router is not under the sources. What \<open>GetRoutes\<close>
  reports and \<open>SetRoutes\<close> writes: two integer percentages and the mirror flag.\<close>

record routes =
  primaryWeight :: int
  canaryWeight :: int
  mirrored :: bool

text \<open>Modelled from the spec: \<open>flaggerv1.CanaryStatus\<close> and the analysis types are not
  under the sources. The persisted status: the drift fingerprints stay with the deployer,
  whose answer enters a tick as an observation, and the weight is read from the router.\<close>

record CanaryStatus =
  Phase :: CanaryPhase
  FailedChecks :: nat
  Iterations :: nat

record CanaryThresholdRange =
  ThresholdMin :: "real option"
  ThresholdMax :: "real option"

record CanaryMetric =
  MetricName :: string
  Query :: string
  ThresholdRange :: CanaryThresholdRange

text \<open>Modelled from the spec: the analysis settings of \<open>flaggerv1.Canary\<close> are not under
  the sources. The routing strategy is weight stepping with a step and a maximum, or a
  fixed number of iterations (A/B testing, session affinity).\<close>

datatype RoutingStrategy = Weighted nat nat | IterationBased nat

record Canary =
  SkipAnalysis :: bool
  Mirror :: bool
  Strategy :: RoutingStrategy
  Threshold :: nat
  Metrics :: "CanaryMetric list"
  RollbackIsTerminal :: bool

text \<open>Modelled from the spec: the deployer and the metrics observer of the scheduler are
  not under the sources. What one tick reads from its collaborators: whether the deployer
  reports a drift of the target, whether it reports the primary as present, up to date and
  healthy, and the answers of the metric provider.\<close>

record observations =
  targetChanged :: bool
  primaryReady :: bool
  runQuery :: "string \<Rightarrow> real \<times> error option"

text \<open>Modelled from the spec: the collaborators are not under the sources. The calls that
  one tick makes to them, in order.\<close>

datatype action =
    Provider_runQuery string
  | Router_setRoutes routes
  | Deployer_promote
  | Deployer_scaleCanary nat
  | Alert_send "string list"

text \<open>Modelled from the spec: the state that ticks of \<open>advanceCanary\<close> act on, the
  persisted status and the live routes.\<close>

record world =
  status :: CanaryStatus
  router :: routes

subsection \<open>Metric checks\<close>

text \<open>Modelled from the spec: the metric analysis of the scheduler is not under the
  sources. A range check fails when the provider returns an error or the value lies outside
  the inclusive range; a missing bound does not constrain.\<close>

definition checkMetric :: "observations \<Rightarrow> CanaryMetric \<Rightarrow> bool" where
  "checkMetric obs m =
     (case runQuery obs (Query m) of
        (v, Some e) \<Rightarrow> False
      | (v, None) \<Rightarrow>
          (case ThresholdMin (ThresholdRange m) of None \<Rightarrow> True | Some lo \<Rightarrow> lo \<le> v) \<and>
          (case ThresholdMax (ThresholdRange m) of None \<Rightarrow> True | Some hi \<Rightarrow> v \<le> hi))"

text \<open>Modelled from the spec: all checks are evaluated, in the order of their declaration;
  the names of the failing ones are collected.\<close>

definition failedMetrics :: "Canary \<Rightarrow> observations \<Rightarrow> string list" where
  "failedMetrics cd obs = map MetricName (filter (\<lambda>m. \<not> checkMetric obs m) (Metrics cd))"

text \<open>Modelled from the spec: the queries that one analysis sends to the metric provider,
  one for each check.\<close>

definition analysisQueries :: "Canary \<Rightarrow> action list" where
  "analysisQueries cd = map (\<lambda>m. Provider_runQuery (Query m)) (Metrics cd)"

subsection \<open>The tick\<close>

text \<open>Modelled from the spec: the routes that send all traffic to the primary.\<close>

definition primaryOnly :: routes where
  "primaryOnly = \<lparr>primaryWeight = 100, canaryWeight = 0, mirrored = False\<rparr>"

text \<open>Modelled from the spec: the parts of \<open>advanceCanary\<close> are not under the sources.
  A drift: all traffic goes back to the primary, the counters are reset, and the
  analysis starts (again) in \<open>Progressing\<close>.\<close>

definition restartAnalysis :: "world \<Rightarrow> world \<times> action list" where
  "restartAnalysis w =
     (\<lparr>status = \<lparr>Phase = CanaryPhaseProgressing, FailedChecks = 0, Iterations = 0\<rparr>,
       router = primaryOnly\<rparr>,
      [Router_setRoutes primaryOnly])"

text \<open>
  Modelled from the spec: skipped analysis, a part of \<open>advanceCanary\<close>, which is not under
  the sources. By section 4.2 the phase jumps straight to \<open>Promoting\<close>; as on every entry
  into \<open>Promoting\<close> the deployer is asked to promote and the router is not touched. No
  metric is queried. (\<open>TestScheduler_DaemonSetSkipAnalysis\<close> of the sources expects
  \<open>Succeeded\<close> after this tick, which the rule of the specification does not give.)
\<close>

definition skipAnalysis :: "world \<Rightarrow> world \<times> action list" where
  "skipAnalysis w =
     (w\<lparr>status := (status w)\<lparr>Phase := CanaryPhasePromoting\<rparr>\<rparr>, [Deployer_promote])"

text \<open>Modelled from the spec: rollback, a part of \<open>advanceCanary\<close>. The routes are reset
  at once, the canary is scaled down, the counter is reset and an alert names the failing
  checks.\<close>

definition rollback :: "string list \<Rightarrow> world \<Rightarrow> world \<times> action list" where
  "rollback failed w =
     (\<lparr>status = (status w)\<lparr>Phase := CanaryPhaseFailed, FailedChecks := 0\<rparr>,
       router = primaryOnly\<rparr>,
      [Router_setRoutes primaryOnly, Deployer_scaleCanary 0, Alert_send failed])"

text \<open>
  Modelled from the spec: one successful step of the routing strategy, a part of
  \<open>advanceCanary\<close>. With weights, the canary at or above the maximum is promoted; a mirroring target that routes nothing to the canary first mirrors
  for one tick; otherwise the canary gains \<open>min(step, max - current)\<close> and the primary
  loses the same, which clears the mirror flag. With iterations, the counter grows until
  the maximum is reached; all traffic goes to the canary meanwhile, as
  \<open>TestScheduler_DaemonSetABTesting\<close> of the sources observes.
\<close>

definition advanceStep :: "Canary \<Rightarrow> world \<Rightarrow> world \<times> action list" where
  "advanceStep cd w =
     (let st = (status w)\<lparr>FailedChecks := 0\<rparr>; r = router w
      in case Strategy cd of
           Weighted step maxWeight \<Rightarrow>
             if int maxWeight \<le> canaryWeight r
             then (\<lparr>status = st\<lparr>Phase := CanaryPhasePromoting\<rparr>, router = r\<rparr>,
                   [Deployer_promote])
             else if Mirror cd \<and> canaryWeight r = 0 \<and> \<not> mirrored r
             then (let r' = \<lparr>primaryWeight = 100, canaryWeight = 0, mirrored = True\<rparr>
                   in (\<lparr>status = st, router = r'\<rparr>, [Router_setRoutes r']))
             else (let d = min (int step) (int maxWeight - canaryWeight r);
                       r' = \<lparr>primaryWeight = primaryWeight r - d,
                             canaryWeight = canaryWeight r + d, mirrored = False\<rparr>
                   in (\<lparr>status = st, router = r'\<rparr>, [Router_setRoutes r']))
         | IterationBased maxIterations \<Rightarrow>
             if maxIterations \<le> Iterations st
             then (\<lparr>status = st\<lparr>Phase := CanaryPhasePromoting\<rparr>, router = r\<rparr>,
                   [Deployer_promote])
             else (let r' = \<lparr>primaryWeight = 0, canaryWeight = 100, mirrored = False\<rparr>
                   in (\<lparr>status = st\<lparr>Iterations := Iterations st + 1\<rparr>, router = r'\<rparr>,
                       [Router_setRoutes r'])))"

text \<open>Modelled from the spec: the analysis of a \<open>Progressing\<close> tick, a part of
  \<open>advanceCanary\<close>: every metric is queried; one or more failing checks count as one
  failure, and the failure that reaches the threshold rolls back.\<close>

definition runAnalysis :: "Canary \<Rightarrow> observations \<Rightarrow> world \<Rightarrow> world \<times> action list" where
  "runAnalysis cd obs w =
     (let failed = failedMetrics cd obs
      in if failed \<noteq> []
         then (let n = FailedChecks (status w) + 1
               in if Threshold cd \<le> n
                  then (let (w', acts) = rollback failed w in (w', analysisQueries cd @ acts))
                  else (w\<lparr>status := (status w)\<lparr>FailedChecks := n\<rparr>\<rparr>,
                        analysisQueries cd @ [Alert_send failed]))
         else (let (w', acts) = advanceStep cd w in (w', analysisQueries cd @ acts)))"

text \<open>
  Modelled from the spec: \<open>advanceCanary\<close>, the tick of the scheduler, is not under the
  sources. \<open>Succeeded\<close> and \<open>Terminated\<close> are terminal, and so is \<open>Failed\<close> unless the
  rollout's policy returns it to \<open>Initialized\<close>. In every phase that is not terminal a
  drift comes first and restarts the analysis at once. Without a drift, \<open>Progressing\<close>
  jumps to \<open>Promoting\<close> when the analysis is skipped and runs the analysis otherwise;
  \<open>Initializing\<close> waits for the primary and establishes the initial routes;
  \<open>Promoting\<close> waits for the promoted primary and then hands all traffic back to it (the
  routes read 100/0 once \<open>Finalising\<close> is observed, as \<open>TestScheduler_DaemonSetPromotion\<close>
  of the sources asserts); \<open>Finalising\<close> scales the canary down. The specification
  gives no rule for the two waiting phases.
\<close>

definition advanceCanary :: "Canary \<Rightarrow> observations \<Rightarrow> world \<Rightarrow> world \<times> action list" where
  "advanceCanary cd obs w =
     (case Phase (status w) of
        CanaryPhaseSucceeded \<Rightarrow> (w, [])
      | CanaryPhaseTerminated \<Rightarrow> (w, [])
      | CanaryPhaseFailed \<Rightarrow>
          if RollbackIsTerminal cd then (w, [])
          else (w\<lparr>status := (status w)\<lparr>Phase := CanaryPhaseInitialized\<rparr>\<rparr>, [])
      | CanaryPhaseProgressing \<Rightarrow>
          if targetChanged obs then restartAnalysis w
          else if SkipAnalysis cd then skipAnalysis w
          else runAnalysis cd obs w
      | CanaryPhaseInitializing \<Rightarrow>
          if targetChanged obs then restartAnalysis w
          else if primaryReady obs
          then (\<lparr>status = (status w)\<lparr>Phase := CanaryPhaseInitialized\<rparr>, router = primaryOnly\<rparr>,
                [Router_setRoutes primaryOnly])
          else (w, [])
      | CanaryPhasePromoting \<Rightarrow>
          if targetChanged obs then restartAnalysis w
          else if primaryReady obs
          then (\<lparr>status = (status w)\<lparr>Phase := CanaryPhaseFinalising\<rparr>, router = primaryOnly\<rparr>,
                [Router_setRoutes primaryOnly])
          else (w, [])
      | CanaryPhaseFinalising \<Rightarrow>
          if targetChanged obs then restartAnalysis w
          else (w\<lparr>status := (status w)\<lparr>Phase := CanaryPhaseSucceeded\<rparr>\<rparr>,
                [Deployer_scaleCanary 0])
      | _ \<Rightarrow> if targetChanged obs then restartAnalysis w else (w, []))"

text \<open>Modelled from the spec: a run of ticks of one rollout, each with what it observes.\<close>

definition ticks :: "Canary \<Rightarrow> observations list \<Rightarrow> world \<Rightarrow> world" where
  "ticks cd obss w = foldl (\<lambda>w obs. fst (advanceCanary cd obs w)) w obss"

subsection \<open>The fixtures and the tests of the scheduler\<close>

text \<open>
  Modelled from the spec: \<open>newDaemonSetTestCanary\<close> is not under the sources. The rollout
  of the scenarios of section 8: step 10, maximum 50, two metric checks. The threshold is
  the number of failed checks that \<open>TestScheduler_DaemonSetRollback\<close> calls the maximum, and
  a rollback is final, since that test finds the phase \<open>Failed\<close> a tick after it.
\<close>

definition newDaemonSetTestCanary :: Canary where
  "newDaemonSetTestCanary =
     \<lparr>SkipAnalysis = False, Mirror = False, Strategy = Weighted 10 50, Threshold = 10,
      Metrics =
        [\<lparr>MetricName = ''request-success-rate'', Query = ''request-success-rate'',
          ThresholdRange = \<lparr>ThresholdMin = Some 99, ThresholdMax = None\<rparr>\<rparr>,
         \<lparr>MetricName = ''request-duration'', Query = ''request-duration'',
          ThresholdRange = \<lparr>ThresholdMin = None, ThresholdMax = Some 500\<rparr>\<rparr>],
      RollbackIsTerminal = True\<rparr>"

text \<open>Modelled from the spec: \<open>newDaemonSetTestCanaryMirror\<close> is not under the sources. The
  same rollout with mirroring enabled.\<close>

definition newDaemonSetTestCanaryMirror :: Canary where
  "newDaemonSetTestCanaryMirror = newDaemonSetTestCanary\<lparr>Mirror := True\<rparr>"

text \<open>Modelled from the spec: \<open>newDaemonSetFixture\<close> is not under the sources. A rollout
  that has not been initialised, with no routes established.\<close>

definition newDaemonSetFixture :: world where
  "newDaemonSetFixture =
     \<lparr>status = \<lparr>Phase = CanaryPhaseInitializing, FailedChecks = 0, Iterations = 0\<rparr>,
      router = \<lparr>primaryWeight = 0, canaryWeight = 0, mirrored = False\<rparr>\<rparr>"

text \<open>Modelled from the spec: the mocks of the fixture are not under the sources. The
  primary is always ready and every metric passes; the argument tells whether the target
  was updated since the tick before.\<close>

definition mockObservations :: "bool \<Rightarrow> observations" where
  "mockObservations updated =
     \<lparr>targetChanged = updated, primaryReady = True, runQuery = (\<lambda>q. (100, None))\<rparr>"


text \<open>
  The tests of the sources, each as the conjunction of its assertions. A call of
  \<open>mocks.ctrl.advanceCanary\<close> is one tick; an update of the target (or of its config
  objects) before a tick is the drift that this tick observes.
\<close>

definition TestScheduler_DaemonSetSkipAnalysis :: bool where
  "TestScheduler_DaemonSetSkipAnalysis =
     (let cd = newDaemonSetTestCanary;
          w = newDaemonSetFixture;
          w = fst (advanceCanary cd (mockObservations False) w);
          cd = cd\<lparr>SkipAnalysis := True\<rparr>;
          w = fst (advanceCanary cd (mockObservations True) w);
          w = fst (advanceCanary cd (mockObservations False) w)
      in SkipAnalysis cd \<and> Phase (status w) = CanaryPhaseSucceeded)"

definition TestScheduler_DaemonSetNewRevisionReset :: bool where
  "TestScheduler_DaemonSetNewRevisionReset =
     (let cd = newDaemonSetTestCanary;
          w = newDaemonSetFixture;
          w = fst (advanceCanary cd (mockObservations False) w);
          w = fst (advanceCanary cd (mockObservations True) w);
          w = fst (advanceCanary cd (mockObservations False) w);
          first = (router w = \<lparr>primaryWeight = 90, canaryWeight = 10, mirrored = False\<rparr>);
          w = fst (advanceCanary cd (mockObservations True) w)
      in first \<and> router w = \<lparr>primaryWeight = 100, canaryWeight = 0, mirrored = False\<rparr>)"

definition TestScheduler_DaemonSetMirroring :: bool where
  "TestScheduler_DaemonSetMirroring =
     (let cd = newDaemonSetTestCanaryMirror;
          w = newDaemonSetFixture;
          w = fst (advanceCanary cd (mockObservations False) w);
          w = fst (advanceCanary cd (mockObservations True) w);
          w = fst (advanceCanary cd (mockObservations False) w);
          first = (router w = \<lparr>primaryWeight = 100, canaryWeight = 0, mirrored = True\<rparr>);
          w = fst (advanceCanary cd (mockObservations False) w)
      in first \<and> router w = \<lparr>primaryWeight = 90, canaryWeight = 10, mirrored = False\<rparr>)"

definition TestScheduler_DaemonSetPromotion :: bool where
  "TestScheduler_DaemonSetPromotion =
     (let cd = newDaemonSetTestCanary;
          w = newDaemonSetFixture;
          w = fst (advanceCanary cd (mockObservations False) w);
          a1 = (Phase (status w) = CanaryPhaseInitialized);
          w = fst (advanceCanary cd (mockObservations True) w);
          w = fst (advanceCanary cd (mockObservations True) w);
          w = w\<lparr>router := (router w)\<lparr>primaryWeight := 60, canaryWeight := 40\<rparr>\<rparr>;
          w = fst (advanceCanary cd (mockObservations False) w);
          a2 = (Phase (status w) = CanaryPhaseProgressing);
          w = fst (advanceCanary cd (mockObservations False) w);
          a3 = (Phase (status w) = CanaryPhasePromoting);
          w = fst (advanceCanary cd (mockObservations False) w);
          a4 = (router w = \<lparr>primaryWeight = 100, canaryWeight = 0, mirrored = False\<rparr>);
          a5 = (Phase (status w) = CanaryPhaseFinalising);
          w = fst (advanceCanary cd (mockObservations False) w)
      in a1 \<and> a2 \<and> a3 \<and> a4 \<and> a5 \<and> Phase (status w) = CanaryPhaseSucceeded)"

text \<open>Modelled from the spec: \<open>newDaemonSetTestCanaryAB\<close> is not under the sources. The
  same rollout with ten iterations, the number that \<open>TestScheduler_DaemonSetABTesting\<close>
  calls the maximum.\<close>

definition newDaemonSetTestCanaryAB :: Canary where
  "newDaemonSetTestCanaryAB = newDaemonSetTestCanary\<lparr>Strategy := IterationBased 10\<rparr>"

definition TestScheduler_DaemonSetABTesting :: bool where
  "TestScheduler_DaemonSetABTesting =
     (let cd = newDaemonSetTestCanaryAB;
          w = newDaemonSetFixture;
          w = fst (advanceCanary cd (mockObservations False) w);
          w = fst (advanceCanary cd (mockObservations True) w);
          w = fst (advanceCanary cd (mockObservations False) w);
          a1 = (router w = \<lparr>primaryWeight = 0, canaryWeight = 100, mirrored = False\<rparr>);
          w = w\<lparr>status := (status w)\<lparr>Iterations := 10\<rparr>\<rparr>;
          w = fst (advanceCanary cd (mockObservations False) w);
          w = fst (advanceCanary cd (mockObservations False) w);
          a2 = (Phase (status w) = CanaryPhaseFinalising);
          w = fst (advanceCanary cd (mockObservations False) w)
      in a1 \<and> a2 \<and> Phase (status w) = CanaryPhaseSucceeded)"

definition TestScheduler_DaemonSetRollback :: bool where
  "TestScheduler_DaemonSetRollback =
     (let cd = newDaemonSetTestCanary;
          w = newDaemonSetFixture;
          w = fst (advanceCanary cd (mockObservations False) w);
          w = w\<lparr>status := \<lparr>Phase = CanaryPhaseProgressing, FailedChecks = 10, Iterations = 0\<rparr>\<rparr>;
          cd = cd\<lparr>Metrics := Metrics cd @
                 [\<lparr>MetricName = ''fail'', Query = ''fail'',
                   ThresholdRange = \<lparr>ThresholdMin = Some 0, ThresholdMax = Some 50\<rparr>\<rparr>]\<rparr>;
          w = fst (advanceCanary cd (mockObservations False) w);
          w = fst (advanceCanary cd (mockObservations False) w)
      in Phase (status w) = CanaryPhaseFailed)"

subsection \<open>The invariant of the routes\<close>

text \<open>Once the routes are established the two weights sum to 100, and the canary of an
  iteration-based rollout never holds more than all of the traffic.\<close>

definition weightsInvariant :: "Canary \<Rightarrow> world \<Rightarrow> bool" where
  "weightsInvariant cd w =
     (Phase (status w) = CanaryPhaseInitializing \<or>
      (primaryWeight (router w) + canaryWeight (router w) = 100 \<and>
       (case Strategy cd of
          Weighted step maxWeight \<Rightarrow> True
        | IterationBased maxIterations \<Rightarrow> canaryWeight (router w) \<le> 100)))"

section \<open>Stubs for the evaluation of the provider\<close>

text \<open>
  Collaborators to run the provider on: a parser that accepts the empty array only, a
  clock that reads 1000, a duration parser that accepts one minute only, a session that
  always fails (a nil session and an error), and a client that answers every call with the given pair.
\<close>

definition stubExternals :: "(nat, int, unit) externals" where
  "stubExternals =
     \<lparr>json_Unmarshal =
        (\<lambda>s. if s = ''[]'' then Inr [] else Inl (errorString ''unexpected end of JSON input'')),
      time_Now = 1000,
      time_Add = (\<lambda>t d. t + sint d),
      time_Zero = 0,
      time_ParseDuration =
        (\<lambda>s. if s = ''1m'' then (60000000000, None)
             else (0, Some (errorString ''time: invalid duration''))),
      session_NewSession = (\<lambda>cfg. (None, Some (errorString ''no session''))),
      cloudwatch_New = (\<lambda>s input. (Some \<lparr>MetricDataResults = []\<rparr>, None)),
      output_String = (\<lambda>r. ''{}'')\<rparr>"

definition stubProvider ::
  "GetMetricDataOutput option \<times> error option \<Rightarrow> (nat, int) CloudWatchProvider" where
  "stubProvider response = \<lparr>client = (\<lambda>input. response), startDelta = 600000000000\<rparr>"

definition stubInput :: "(nat, int) GetMetricDataInput" where
  "stubInput =
     \<lparr>EndTime = Some 1000, MaxDatapoints = Some 20, StartTime = Some (- 599999999000),
      MetricDataQueries = []\<rparr>"

definition stubProbe :: "(nat, int) GetMetricDataInput" where
  "stubProbe =
     \<lparr>EndTime = Some 0, MaxDatapoints = None, StartTime = Some 0, MetricDataQueries = []\<rparr>"

text \<open>An output whose first result is empty and whose second result holds the value 5.0,
  and an output whose first result holds 5.0 and more.\<close>

definition outputLaterValues :: GetMetricDataOutput where
  "outputLaterValues =
     \<lparr>MetricDataResults =
        [Some \<lparr>Label = ''m1'', Values = []\<rparr>,
         Some \<lparr>Label = ''m2'', Values = [Some 4617315517961601024]\<rparr>]\<rparr>"

definition outputFirstValues :: GetMetricDataOutput where
  "outputFirstValues =
     \<lparr>MetricDataResults =
        [Some \<lparr>Label = ''m1'', Values = [Some 4617315517961601024, Some 7]\<rparr>,
         Some \<lparr>Label = ''m2'', Values = [Some 9]\<rparr>]\<rparr>"

text \<open>The two sets of characters that the region is trimmed by, written out.\<close>

definition leadingCutset :: "char set" where
  "leadingCutset =
     {CHR ''m'', CHR ''o'', CHR ''n'', CHR ''i'', CHR ''t'', CHR ''r'', CHR ''g'', CHR ''.''}"

definition trailingCutset :: "char set" where
  "trailingCutset =
     {CHR ''a'', CHR ''m'', CHR ''z'', CHR ''o'', CHR ''n'', CHR ''w'', CHR ''s'', CHR ''c'',
      CHR ''.''}"

section \<open>Properties of the provider\<close>

lemmas stub_defs =
  stubExternals_def stubProvider_def stubInput_def stubProbe_def outputLaterValues_def
  outputFirstValues_def

subsection \<open>RunQuery\<close>

text \<open>
  Claim C1, as stated: whenever the response holds at least one result with a non-empty
  list of values, \<open>RunQuery\<close> returns the first value of the first result and no
  error. This fails where the first result is empty and a later one is not: the call below
  is issued, its response holds the result \<open>m2\<close> with one value, and \<open>RunQuery\<close>
  returns the error for missing values.
\<close>

theorem RunQuery_later_result_counterexample:
  "snd (RunQuery stubExternals (stubProvider (Some outputLaterValues, None)) ''[]'') = [stubInput] \<and>
   client (stubProvider (Some outputLaterValues, None)) stubInput = (Some outputLaterValues, None) \<and>
   Some \<lparr>Label = ''m2'', Values = [Some 4617315517961601024]\<rparr>
     \<in> set (MetricDataResults outputLaterValues) \<and>
   fst (RunQuery stubExternals (stubProvider (Some outputLaterValues, None)) ''[]'') =
     Return (0, Some (errorString ''no values found in response: {}''))"
  by (simp add: RunQuery_def stub_defs Errorf_def)

text \<open>
  Claim C1, amended: whenever the call that \<open>RunQuery\<close> issues succeeds with a response
  whose first result has a non-empty list of values, \<open>RunQuery\<close> returns the first value
  of the first result (read by \<open>aws.Float64Value\<close>) and no error, whatever the other
  values and results are.
\<close>

theorem RunQuery_first_value:
  assumes "snd (RunQuery ext p query) = [input]"
    and "client p input = (Some res, None)"
    and "MetricDataResults res = Some m # rest"
    and "Values m = v # vs"
  shows "fst (RunQuery ext p query) = Return (Float64Value v, None)"
  using assms
  by (auto simp: RunQuery_def Let_def split: sum.splits prod.splits option.splits)

theorem RunQuery_first_value_witness:
  "fst (RunQuery stubExternals (stubProvider (Some outputFirstValues, None)) ''[]'') =
     Return (4617315517961601024, None)"
  using RunQuery_first_value [of stubExternals "stubProvider (Some outputFirstValues, None)"
      "''[]''" stubInput outputFirstValues
      "\<lparr>Label = ''m1'', Values = [Some 4617315517961601024, Some 7]\<rparr>"
      "[Some \<lparr>Label = ''m2'', Values = [Some 9]\<rparr>]" "Some 4617315517961601024" "[Some 7]"]
  by (simp add: RunQuery_def stub_defs)

text \<open>
  Claim C2: whenever the call that \<open>RunQuery\<close> issues succeeds with a response that has
  no results, or whose first result has no values, \<open>RunQuery\<close> returns the error
  "no values found in response", whatever the later results hold.
\<close>

theorem RunQuery_no_data:
  assumes "snd (RunQuery ext p query) = [input]"
    and "client p input = (Some res, None)"
    and "MetricDataResults res = [] \<or>
         (\<exists>m rest. MetricDataResults res = Some m # rest \<and> Values m = [])"
  shows "fst (RunQuery ext p query) =
           Return (0, Some (Errorf ''no values found in response: '' (output_String ext res)))"
  using assms
  by (auto simp: RunQuery_def Let_def split: sum.splits prod.splits option.splits)

theorem RunQuery_no_data_witness:
  "fst (RunQuery stubExternals (stubProvider (Some outputLaterValues, None)) ''[]'') =
     Return (0, Some (errorString ''no values found in response: {}'')) \<and>
   fst (RunQuery stubExternals (stubProvider (Some \<lparr>MetricDataResults = []\<rparr>, None)) ''[]'') =
     Return (0, Some (errorString ''no values found in response: {}''))"
  using RunQuery_no_data [of stubExternals "stubProvider (Some outputLaterValues, None)"
      "''[]''" stubInput outputLaterValues]
    RunQuery_no_data [of stubExternals
      "stubProvider (Some \<lparr>MetricDataResults = []\<rparr>, None)" "''[]''" stubInput
      "\<lparr>MetricDataResults = []\<rparr>"]
  by (simp add: RunQuery_def stub_defs Errorf_def)

text \<open>
  Claim C4: whenever \<open>json.Unmarshal\<close> rejects the query, \<open>RunQuery\<close> returns the
  unmarshaling error and issues no call of \<open>GetMetricData\<close>.
\<close>

theorem RunQuery_malformed_query:
  assumes "json_Unmarshal ext query = Inl e"
  shows "RunQuery ext p query =
           (Return (0, Some (Errorf ''error unmarshaling query: '' (Error e))), [])"
  using assms by (simp add: RunQuery_def)

theorem RunQuery_malformed_query_witness:
  "RunQuery stubExternals (stubProvider (Some outputFirstValues, None)) ''{'' =
     (Return (0, Some (errorString
        ''error unmarshaling query: unexpected end of JSON input'')), [])"
  using RunQuery_malformed_query [of stubExternals "''{''"
      "errorString ''unexpected end of JSON input''"
      "stubProvider (Some outputFirstValues, None)"]
  by (simp add: stubExternals_def Errorf_def)

text \<open>
  Claim C10: whenever \<open>RunQuery\<close> returns an error, the value that comes with it is 0.
\<close>

theorem RunQuery_error_value_zero:
  assumes "fst (RunQuery ext p query) = Return (v, Some e)"
  shows "v = 0"
  using assms
  by (auto simp: RunQuery_def Let_def split: sum.splits prod.splits option.splits if_splits)

theorem RunQuery_error_value_zero_witness:
  "fst (RunQuery stubExternals
          (stubProvider (Some outputFirstValues, Some (RequestFailure 500 ''InternalFailure'')))
          ''[]'') =
     Return (0, Some (errorString ''error requesting cloudwatch: InternalFailure''))"
  using RunQuery_error_value_zero [of stubExternals
      "stubProvider (Some outputFirstValues, Some (RequestFailure 500 ''InternalFailure''))"
      "''[]''" 0 "errorString ''error requesting cloudwatch: InternalFailure''"]
  by (simp add: RunQuery_def stub_defs Errorf_def)

subsection \<open>IsOnline\<close>

text \<open>
  Claim C3: \<open>IsOnline\<close> returns \<open>(true, nil)\<close> when its probe call returns no error or
  a request failure with status 400, and \<open>(false, err)\<close> with an error in every other
  case, also for an error that is not a request failure.
\<close>

theorem IsOnline_reachability:
  assumes "snd (IsOnline ext p) = [input]"
    and "client p input = (res, err)"
  shows "(if err = None \<or> (\<exists>m. err = Some (RequestFailure 400 m))
          then fst (IsOnline ext p) = (True, None)
          else \<exists>e. fst (IsOnline ext p) = (False, Some e))"
  using assms
  by (auto simp: IsOnline_def Let_def StatusBadRequest_def
      split: prod.splits option.splits error.splits)

theorem IsOnline_reachability_witness:
  "fst (IsOnline stubExternals (stubProvider (None, None))) = (True, None) \<and>
   fst (IsOnline stubExternals
          (stubProvider (None, Some (RequestFailure 400 ''ValidationError'')))) = (True, None) \<and>
   (\<exists>e. fst (IsOnline stubExternals
          (stubProvider (None, Some (RequestFailure 403 ''AccessDenied'')))) = (False, Some e)) \<and>
   (\<exists>e. fst (IsOnline stubExternals
          (stubProvider (None, Some (errorString ''dial tcp: timeout'')))) = (False, Some e))"
  using IsOnline_reachability [of stubExternals "stubProvider (None, None)" stubProbe None None]
    IsOnline_reachability [of stubExternals
      "stubProvider (None, Some (RequestFailure 400 ''ValidationError''))" stubProbe None
      "Some (RequestFailure 400 ''ValidationError'')"]
    IsOnline_reachability [of stubExternals
      "stubProvider (None, Some (RequestFailure 403 ''AccessDenied''))" stubProbe None
      "Some (RequestFailure 403 ''AccessDenied'')"]
    IsOnline_reachability [of stubExternals
      "stubProvider (None, Some (errorString ''dial tcp: timeout''))" stubProbe None
      "Some (errorString ''dial tcp: timeout'')"]
  by (simp add: IsOnline_def stub_defs)

subsection \<open>NewCloudWatchProvider\<close>

text \<open>
  Claim C8: \<open>NewCloudWatchProvider\<close> returns an error exactly when
  \<open>time.ParseDuration\<close> rejects the metric interval. Whatever session and error
  \<open>session.NewSession\<close> returns, the error of \<open>session.NewSession\<close> does not reach the
  caller: when the interval is rejected the constructor returns the error made from the
  error of \<open>time.ParseDuration\<close>; when the interval parses it returns the provider with a
  nil error, or panics in \<open>cloudwatch.New\<close> if the session is nil.
\<close>

theorem NewCloudWatchProvider_error:
  "(\<exists>r e. fst (NewCloudWatchProvider ext metricInterval provider) = Return (r, Some e)) =
     (snd (time_ParseDuration ext metricInterval) \<noteq> None) \<and>
   fst (NewCloudWatchProvider (ext\<lparr>session_NewSession := \<lambda>cfg. (sess, serr)\<rparr>)
          metricInterval provider) =
     (case snd (time_ParseDuration ext metricInterval) of
        Some e \<Rightarrow> Return (None, Some (Errorf ''error parsing metric interval: '' (Error e)))
      | None \<Rightarrow>
          (case sess of
             None \<Rightarrow> Panic
           | Some s \<Rightarrow>
               Return
                 (Some \<lparr>client = cloudwatch_New ext s,
                        startDelta = cloudWatchStartDeltaMultiplierOnMetricInterval *
                                     fst (time_ParseDuration ext metricInterval)\<rparr>,
                  None)))"
  by (auto simp: NewCloudWatchProvider_def Let_def split: prod.splits option.splits)

theorem NewCloudWatchProvider_error_witness:
  "fst (NewCloudWatchProvider
          (stubExternals\<lparr>session_NewSession := \<lambda>cfg. (None, Some (errorString ''no session''))\<rparr>)
          ''1x'' \<lparr>Address = ''monitoring.eu-west-1.amazonaws.com''\<rparr>) =
     Return (None, Some (errorString ''error parsing metric interval: time: invalid duration'')) \<and>
   fst (NewCloudWatchProvider
          (stubExternals\<lparr>session_NewSession := \<lambda>cfg. (None, Some (errorString ''no session''))\<rparr>)
          ''1m'' \<lparr>Address = ''monitoring.eu-west-1.amazonaws.com''\<rparr>) = Panic \<and>
   fst (NewCloudWatchProvider
          (stubExternals\<lparr>session_NewSession := \<lambda>cfg. (Some (), Some (errorString ''partial''))\<rparr>)
          ''1m'' \<lparr>Address = ''monitoring.eu-west-1.amazonaws.com''\<rparr>) =
     Return (Some \<lparr>client = cloudwatch_New stubExternals (), startDelta = 600000000000\<rparr>, None)"
  using NewCloudWatchProvider_error [of stubExternals "''1x''"
          "\<lparr>Address = ''monitoring.eu-west-1.amazonaws.com''\<rparr>" None
          "Some (errorString ''no session'')"]
    NewCloudWatchProvider_error [of stubExternals "''1m''"
          "\<lparr>Address = ''monitoring.eu-west-1.amazonaws.com''\<rparr>" None
          "Some (errorString ''no session'')"]
    NewCloudWatchProvider_error [of stubExternals "''1m''"
          "\<lparr>Address = ''monitoring.eu-west-1.amazonaws.com''\<rparr>" "Some ()"
          "Some (errorString ''partial'')"]
  by (simp add: stubExternals_def Errorf_def
      cloudWatchStartDeltaMultiplierOnMetricInterval_def)

text \<open>The loops of \<open>TrimLeft\<close> and \<open>TrimRight\<close> drop the longest run of characters of
  the cut set, from the front and from the back.\<close>

lemma TrimRight_Nil: "TrimRight [] cutset = []"
  by (simp add: TrimRight.simps)

lemma TrimRight_snoc:
  "TrimRight (s @ [c]) cutset = (if c \<in> set cutset then TrimRight s cutset else s @ [c])"
  by (subst TrimRight.simps) simp

lemma TrimLeft_dropWhile: "TrimLeft s cutset = dropWhile (\<lambda>c. c \<in> set cutset) s"
  by (induction s) auto

lemma TrimRight_dropWhile:
  "TrimRight s cutset = rev (dropWhile (\<lambda>c. c \<in> set cutset) (rev s))"
  by (induction s rule: rev_induct) (auto simp: TrimRight_Nil TrimRight_snoc)

lemma set_monitoring: "set ''monitoring.'' = leadingCutset"
  by (auto simp: leadingCutset_def)

lemma set_amazonaws: "set ''.amazonaws.com'' = trailingCutset"
  by (auto simp: trailingCutset_def)

lemma region_trimmed:
  "TrimRight (TrimLeft a ''monitoring.'') ''.amazonaws.com'' =
     rev (dropWhile (\<lambda>c. c \<in> trailingCutset) (rev (dropWhile (\<lambda>c. c \<in> leadingCutset) a)))"
  unfolding TrimRight_dropWhile TrimLeft_dropWhile set_monitoring set_amazonaws ..

lemma dropWhile_leading_prefix:
  "dropWhile (\<lambda>c. c \<in> leadingCutset) (''monitoring.'' @ s) =
     dropWhile (\<lambda>c. c \<in> leadingCutset) s"
  by (simp add: leadingCutset_def)

lemma dropWhile_trailing_suffix:
  "dropWhile (\<lambda>c. c \<in> trailingCutset) (rev ''.amazonaws.com'' @ s) =
     dropWhile (\<lambda>c. c \<in> trailingCutset) s"
  by (simp add: trailingCutset_def)

lemma trimmed_suffix_empty:
  "rev (dropWhile (\<lambda>c. c \<in> trailingCutset)
     (rev (dropWhile (\<lambda>c. c \<in> leadingCutset) ''.amazonaws.com''))) = []"
  by (simp add: leadingCutset_def trailingCutset_def)

text \<open>For an endpoint of the usual form, the trimming acts on the region segment alone.\<close>

lemma region_of_endpoint:
  "rev (dropWhile (\<lambda>c. c \<in> trailingCutset) (rev (dropWhile (\<lambda>c. c \<in> leadingCutset)
          (''monitoring.'' @ t @ ''.amazonaws.com'')))) =
   rev (dropWhile (\<lambda>c. c \<in> trailingCutset) (rev (dropWhile (\<lambda>c. c \<in> leadingCutset) t)))"
proof (cases "\<forall>c \<in> set t. c \<in> leadingCutset")
  case True
  then have t: "dropWhile (\<lambda>c. c \<in> leadingCutset) t = []"
    by simp
  from True have "dropWhile (\<lambda>c. c \<in> leadingCutset) (t @ ''.amazonaws.com'') =
      dropWhile (\<lambda>c. c \<in> leadingCutset) ''.amazonaws.com''"
    by (simp only: dropWhile_append2)
  then show ?thesis
    unfolding dropWhile_leading_prefix t using trimmed_suffix_empty by simp
next
  case False
  then obtain x where "x \<in> set t" "\<not> x \<in> leadingCutset"
    by blast
  then have "dropWhile (\<lambda>c. c \<in> leadingCutset) (t @ ''.amazonaws.com'') =
      dropWhile (\<lambda>c. c \<in> leadingCutset) t @ ''.amazonaws.com''"
    by (rule dropWhile_append1)
  then show ?thesis
    unfolding dropWhile_leading_prefix
    by (simp only: rev_append dropWhile_trailing_suffix)
qed

text \<open>
  Claim C9: the region that \<open>NewCloudWatchProvider\<close> passes to the session is the
  address without its leading characters of the set m, o, n, i, t, r, g, dot and, after
  that, without its trailing characters of the set a, m, z, o, n, w, s, c, dot. For the
  endpoint of a region \<open>t\<close> the same trimming is applied to \<open>t\<close> itself, so the region
  loses its own leading and trailing characters of these sets: the endpoint of
  \<open>me-south-1\<close> gives the region \<open>e-south-1\<close>.
\<close>

theorem NewCloudWatchProvider_region:
  "map Region (snd (NewCloudWatchProvider ext metricInterval provider)) =
     [rev (dropWhile (\<lambda>c. c \<in> trailingCutset)
        (rev (dropWhile (\<lambda>c. c \<in> leadingCutset) (Address provider))))] \<and>
   map Region (snd (NewCloudWatchProvider ext metricInterval
       \<lparr>Address = ''monitoring.'' @ t @ ''.amazonaws.com''\<rparr>)) =
     [rev (dropWhile (\<lambda>c. c \<in> trailingCutset) (rev (dropWhile (\<lambda>c. c \<in> leadingCutset) t)))] \<and>
   map Region (snd (NewCloudWatchProvider ext metricInterval
       \<lparr>Address = ''monitoring.me-south-1.amazonaws.com''\<rparr>)) = [''e-south-1'']"
proof -
  have r: "map Region (snd (NewCloudWatchProvider ext metricInterval p)) =
     [rev (dropWhile (\<lambda>c. c \<in> trailingCutset)
        (rev (dropWhile (\<lambda>c. c \<in> leadingCutset) (Address p))))]" for p
    by (simp add: NewCloudWatchProvider_def Let_def region_trimmed
        split: prod.splits option.splits)
  have e: "rev (dropWhile (\<lambda>c. c \<in> trailingCutset) (rev (dropWhile (\<lambda>c. c \<in> leadingCutset)
      ''monitoring.me-south-1.amazonaws.com''))) = ''e-south-1''"
    by (simp add: leadingCutset_def trailingCutset_def)
  show ?thesis
    using r [of provider] r [of "\<lparr>Address = ''monitoring.'' @ t @ ''.amazonaws.com''\<rparr>"]
      r [of "\<lparr>Address = ''monitoring.me-south-1.amazonaws.com''\<rparr>"] region_of_endpoint [of t] e
    by simp
qed

theorem NewCloudWatchProvider_region_witness:
  "map Region (snd (NewCloudWatchProvider stubExternals ''1m''
       \<lparr>Address = ''monitoring.il-central-1.amazonaws.com''\<rparr>)) = [''l-central-1''] \<and>
   map Region (snd (NewCloudWatchProvider stubExternals ''1m''
       \<lparr>Address = ''monitoring.eu-west-1.amazonaws.com''\<rparr>)) = [''eu-west-1'']"
  using NewCloudWatchProvider_region [of stubExternals "''1m''"
      "\<lparr>Address = ''monitoring.il-central-1.amazonaws.com''\<rparr>" "''eu-west-1''"]
  by (simp add: leadingCutset_def trailingCutset_def)

section \<open>Properties of the reconciliation engine\<close>

lemmas engine_defs =
  advanceCanary_def runAnalysis_def advanceStep_def rollback_def skipAnalysis_def
  restartAnalysis_def primaryOnly_def failedMetrics_def analysisQueries_def checkMetric_def

lemmas fixture_defs =
  newDaemonSetTestCanary_def newDaemonSetTestCanaryMirror_def newDaemonSetFixture_def
  mockObservations_def

lemma ticks_Nil: "ticks cd [] w = w"
  by (simp add: ticks_def)

lemma ticks_Cons: "ticks cd (obs # obss) w = ticks cd obss (fst (advanceCanary cd obs w))"
  by (simp add: ticks_def)

subsection \<open>The model on the tests of the sources\<close>

text \<open>The model meets the assertions of the tests of weight stepping, reset, mirroring,
  promotion, A/B testing and rollback.\<close>

lemma TestScheduler_DaemonSetNewRevisionReset_passes: "TestScheduler_DaemonSetNewRevisionReset"
  unfolding TestScheduler_DaemonSetNewRevisionReset_def Let_def
  by (simp add: engine_defs fixture_defs Let_def)

lemma TestScheduler_DaemonSetMirroring_passes: "TestScheduler_DaemonSetMirroring"
  unfolding TestScheduler_DaemonSetMirroring_def Let_def
  by (simp add: engine_defs fixture_defs Let_def)

lemma TestScheduler_DaemonSetPromotion_passes: "TestScheduler_DaemonSetPromotion"
  unfolding TestScheduler_DaemonSetPromotion_def Let_def
  by (simp add: engine_defs fixture_defs Let_def)

lemma TestScheduler_DaemonSetABTesting_passes: "TestScheduler_DaemonSetABTesting"
  unfolding TestScheduler_DaemonSetABTesting_def Let_def
  by (simp add: engine_defs fixture_defs newDaemonSetTestCanaryAB_def Let_def)

lemma TestScheduler_DaemonSetRollback_passes: "TestScheduler_DaemonSetRollback"
  unfolding TestScheduler_DaemonSetRollback_def Let_def
  by (simp add: engine_defs fixture_defs Let_def)

text \<open>
  The run of \<open>TestScheduler_DaemonSetSkipAnalysis\<close> ends in \<open>Promoting\<close> in the model,
  where the test expects \<open>Succeeded\<close>: the rule of section 4.2 for a skipped analysis
  does not give the phase that this test of the sources asserts.
\<close>

lemma TestScheduler_DaemonSetSkipAnalysis_differs: "\<not> TestScheduler_DaemonSetSkipAnalysis"
  unfolding TestScheduler_DaemonSetSkipAnalysis_def Let_def
  by (simp add: engine_defs fixture_defs Let_def)

subsection \<open>The weights during Progressing\<close>

lemma advanceStep_invariant:
  assumes "weightsInvariant cd w" and "Phase (status w) = CanaryPhaseProgressing"
  shows "weightsInvariant cd (fst (advanceStep cd w))"
  using assms
  by (auto simp: weightsInvariant_def advanceStep_def Let_def split: RoutingStrategy.splits)

lemma runAnalysis_invariant:
  assumes "weightsInvariant cd w" and "Phase (status w) = CanaryPhaseProgressing"
  shows "weightsInvariant cd (fst (runAnalysis cd obs w))"
proof (cases "failedMetrics cd obs = []")
  case True
  then show ?thesis
    using advanceStep_invariant [OF assms]
    by (simp add: runAnalysis_def case_prod_beta)
next
  case False
  then show ?thesis
    using assms
    by (auto simp: runAnalysis_def rollback_def primaryOnly_def weightsInvariant_def Let_def
        split: RoutingStrategy.splits)
qed

lemma restartAnalysis_invariant: "weightsInvariant cd (fst (restartAnalysis w))"
  by (simp add: restartAnalysis_def primaryOnly_def weightsInvariant_def
      split: RoutingStrategy.splits)

lemma skipAnalysis_invariant:
  assumes "weightsInvariant cd w" and "Phase (status w) = CanaryPhaseProgressing"
  shows "weightsInvariant cd (fst (skipAnalysis w))"
  using assms by (auto simp: skipAnalysis_def weightsInvariant_def split: RoutingStrategy.splits)

lemma advanceCanary_invariant:
  assumes "weightsInvariant cd w"
  shows "weightsInvariant cd (fst (advanceCanary cd obs w))"
proof (cases "Phase (status w) = CanaryPhaseProgressing")
  case True
  then show ?thesis
    using runAnalysis_invariant [OF assms] restartAnalysis_invariant
      skipAnalysis_invariant [OF assms]
    by (simp add: advanceCanary_def)
next
  case False
  then show ?thesis
    using assms
    by (cases "Phase (status w)")
      (auto simp: advanceCanary_def weightsInvariant_def restartAnalysis_def primaryOnly_def
        split: RoutingStrategy.splits)
qed

lemma ticks_invariant:
  "weightsInvariant cd w \<Longrightarrow> weightsInvariant cd (ticks cd obss w)"
  unfolding ticks_def
  by (induction obss arbitrary: w) (simp_all add: advanceCanary_invariant)

lemma advanceStep_canary_mono:
  assumes "weightsInvariant cd w" and "Phase (status w) = CanaryPhaseProgressing"
  shows "canaryWeight (router w) \<le> canaryWeight (router (fst (advanceStep cd w)))"
  using assms
  by (auto simp: weightsInvariant_def advanceStep_def Let_def split: RoutingStrategy.splits)

lemma advanceCanary_canary_mono:
  assumes "weightsInvariant cd w" and "Phase (status w) = CanaryPhaseProgressing"
    and "\<not> targetChanged obs"
    and "Phase (status (fst (advanceCanary cd obs w))) = CanaryPhaseProgressing"
  shows "canaryWeight (router w) \<le> canaryWeight (router (fst (advanceCanary cd obs w)))"
proof (cases "failedMetrics cd obs = []")
  case True
  then show ?thesis
    using assms advanceStep_canary_mono [OF assms(1,2)]
    by (simp add: advanceCanary_def runAnalysis_def skipAnalysis_def case_prod_beta
        split: if_splits)
next
  case False
  then show ?thesis
    using assms
    by (simp add: advanceCanary_def runAnalysis_def skipAnalysis_def rollback_def Let_def
        split: if_splits)
qed

text \<open>
  Claim C5: in every state that a run of ticks reaches from an uninitialised rollout and
  that is in \<open>Progressing\<close>, the primary weight and the canary weight of the router sum
  to 100; and a tick from such a state that observes no drift (no reset) and stays in
  \<open>Progressing\<close> (no rollback) does not lower the canary weight.
\<close>

theorem progressing_weights:
  assumes "Phase (status w0) = CanaryPhaseInitializing"
    and "w = ticks cd obss w0"
    and "Phase (status w) = CanaryPhaseProgressing"
  shows "primaryWeight (router w) + canaryWeight (router w) = 100 \<and>
         (\<forall>obs. \<not> targetChanged obs \<and>
                Phase (status (fst (advanceCanary cd obs w))) = CanaryPhaseProgressing \<longrightarrow>
                canaryWeight (router w) \<le> canaryWeight (router (fst (advanceCanary cd obs w))))"
proof -
  have "weightsInvariant cd w0"
    using assms(1) by (simp add: weightsInvariant_def)
  then have inv: "weightsInvariant cd w"
    using assms(2) by (simp add: ticks_invariant)
  then have "primaryWeight (router w) + canaryWeight (router w) = 100"
    using assms(3) by (simp add: weightsInvariant_def)
  then show ?thesis
    using advanceCanary_canary_mono [OF inv assms(3)] by blast
qed

theorem progressing_weights_witness:
  "Phase (status newDaemonSetFixture) = CanaryPhaseInitializing \<and>
   ticks newDaemonSetTestCanary [mockObservations False, mockObservations True,
       mockObservations False] newDaemonSetFixture =
     \<lparr>status = \<lparr>Phase = CanaryPhaseProgressing, FailedChecks = 0, Iterations = 0\<rparr>,
      router = \<lparr>primaryWeight = 90, canaryWeight = 10, mirrored = False\<rparr>\<rparr> \<and>
   fst (advanceCanary newDaemonSetTestCanary (mockObservations False)
     \<lparr>status = \<lparr>Phase = CanaryPhaseProgressing, FailedChecks = 0, Iterations = 0\<rparr>,
      router = \<lparr>primaryWeight = 90, canaryWeight = 10, mirrored = False\<rparr>\<rparr>) =
     \<lparr>status = \<lparr>Phase = CanaryPhaseProgressing, FailedChecks = 0, Iterations = 0\<rparr>,
      router = \<lparr>primaryWeight = 80, canaryWeight = 20, mirrored = False\<rparr>\<rparr> \<and>
   (90::int) + 10 = 100 \<and> (10::int) \<le> 20"
proof -
  have init: "Phase (status newDaemonSetFixture) = CanaryPhaseInitializing"
    by (simp add: newDaemonSetFixture_def)
  have run: "ticks newDaemonSetTestCanary [mockObservations False, mockObservations True,
       mockObservations False] newDaemonSetFixture =
     \<lparr>status = \<lparr>Phase = CanaryPhaseProgressing, FailedChecks = 0, Iterations = 0\<rparr>,
      router = \<lparr>primaryWeight = 90, canaryWeight = 10, mirrored = False\<rparr>\<rparr>"
    by (simp add: ticks_Nil ticks_Cons engine_defs fixture_defs Let_def)
  have step: "fst (advanceCanary newDaemonSetTestCanary (mockObservations False)
     \<lparr>status = \<lparr>Phase = CanaryPhaseProgressing, FailedChecks = 0, Iterations = 0\<rparr>,
      router = \<lparr>primaryWeight = 90, canaryWeight = 10, mirrored = False\<rparr>\<rparr>) =
     \<lparr>status = \<lparr>Phase = CanaryPhaseProgressing, FailedChecks = 0, Iterations = 0\<rparr>,
      router = \<lparr>primaryWeight = 80, canaryWeight = 20, mirrored = False\<rparr>\<rparr>"
    by (simp add: engine_defs fixture_defs Let_def)
  have quiet: "\<not> targetChanged (mockObservations False)"
    by (simp add: mockObservations_def)
  from progressing_weights [OF init run [symmetric]]
  have "(90::int) + 10 = 100 \<and> (10::int) \<le> 20"
    using step quiet by simp
  with init run step show ?thesis by simp
qed

subsection \<open>Skipped analysis\<close>





subsection \<open>Mirroring\<close>




end
